theory Spec2Isabelle
  imports Complex_Main "HOL-Library.Sublist"
begin

section \<open>Domain model (types.ts)\<close>

text \<open>
  The enumerations and interfaces of \<^verbatim>\<open>types.ts\<close>. A TypeScript \<^verbatim>\<open>number\<close> is a finite
  IEEE binary64 value; a coordinate or a random draw is a \<^typ>\<open>real\<close> here. The state
  machine of \<^verbatim>\<open>App\<close> (which alerts are appended, where they go, what the modal shows) is
  written with the exact arithmetic of the reals, since none of those properties depends
  on the value of a coordinate; the arithmetic of the synthesized alert is written a second
  time with every operation rounded to binary64 (\<open>newAlert64\<close> below), and the numeric
  property is settled on that. The battery level is a natural number (the data and the
  interface comment use whole percentages). Field names carry the interface's name as a
  prefix, since \<^verbatim>\<open>Alert\<close> and \<^verbatim>\<open>Device\<close> share the field names \<^verbatim>\<open>id\<close> and \<^verbatim>\<open>location\<close>; the
  member \<^verbatim>\<open>NavPage.Map\<close> is written \<open>MapPage\<close>.
\<close>

datatype NavPage = Dashboard | MapPage | Analytics | Alerts | Devices | Users

datatype AlertSeverity = High | Medium | Low | Resolved

datatype DeviceStatus = Online | Offline | LowBattery

record LatLng =
  lat :: real
  lng :: real

record Alert =
  alert_id :: string
  alert_timestamp :: string
  alert_location :: LatLng
  alert_severity :: AlertSeverity
  alert_deviceId :: string

record Device =
  device_id :: string
  device_status :: DeviceStatus
  device_battery :: nat
  device_lastPing :: string
  device_location :: LatLng

text \<open>The string value of each enumeration member, as a template literal prints it.\<close>

fun severityString :: "AlertSeverity \<Rightarrow> string" where
  "severityString High = ''High''"
| "severityString Medium = ''Medium''"
| "severityString Low = ''Low''"
| "severityString Resolved = ''Resolved''"

section \<open>JavaScript primitives used by App.tsx\<close>

datatype js_error = TypeError

text \<open>Decimal printing of an integer, as a template literal prints an integral number.\<close>

definition digitChar :: "nat \<Rightarrow> char" where
  "digitChar n = ''0123456789'' ! n"

function natToString :: "nat \<Rightarrow> string" where
  "natToString n = (if n < 10 then [digitChar n] else natToString (n div 10) @ [digitChar (n mod 10)])"
  by pat_completeness auto
termination
  by (relation "measure (\<lambda>n. n)") auto

declare natToString.simps [simp del]

definition numberToString :: "int \<Rightarrow> string" where
  "numberToString i = (if i < 0 then ''-'' @ natToString (nat (- i)) else natToString (nat i))"

text \<open>
  \<^verbatim>\<open>Array.prototype.filter\<close>: visit the indices in ascending order and push every element
  the callback accepts onto the end of the result.
\<close>

function array_filter_from :: "('a \<Rightarrow> bool) \<Rightarrow> 'a list \<Rightarrow> nat \<Rightarrow> 'a list \<Rightarrow> 'a list" where
  "array_filter_from p xs k acc =
     (if k < length xs
      then array_filter_from p xs (Suc k) (if p (xs ! k) then acc @ [xs ! k] else acc)
      else acc)"
  by pat_completeness auto
termination
  by (relation "measure (\<lambda>(p, xs, k, acc). length xs - k)") auto

declare array_filter_from.simps [simp del]

definition array_filter :: "('a \<Rightarrow> bool) \<Rightarrow> 'a list \<Rightarrow> 'a list" where
  "array_filter p xs = array_filter_from p xs 0 []"

text \<open>
  \<^verbatim>\<open>Array.prototype.forEach\<close> with a callback that mutates one captured object: the
  object is threaded through the calls, first element first.
\<close>

fun array_forEach :: "('s \<Rightarrow> 'a \<Rightarrow> 's) \<Rightarrow> 'a list \<Rightarrow> 's \<Rightarrow> 's" where
  "array_forEach f [] s = s"
| "array_forEach f (x # xs) s = array_forEach f xs (f s x)"

section \<open>The application state and the event synthesizer (App.tsx, component App)\<close>

text \<open>
  The \<^verbatim>\<open>useState\<close> cells of \<^verbatim>\<open>App\<close> that have a setter. \<^verbatim>\<open>devices\<close> and \<^verbatim>\<open>users\<close> are
  declared without a setter; the device list is a parameter of every operation below.
\<close>

record AppState =
  activePage :: NavPage
  isSidebarOpen :: bool
  alerts :: "Alert list"
  highSeverityAlert :: "Alert option"
  selectedDevice :: "Device option"

definition initialState :: "Alert list \<Rightarrow> AppState" where
  "initialState mockAlerts =
     \<lparr>activePage = Dashboard, isSidebarOpen = False, alerts = mockAlerts,
      highSeverityAlert = None, selectedDevice = None\<rparr>"

text \<open>
  The values \<^verbatim>\<open>Math.random()\<close> returns during one run of the interval callback, in
  the order of the calls: the coin flip, the device index, the identifier, the latitude
  noise and the longitude noise. When the coin flip does not fire only the first is drawn.
\<close>

record Draws =
  r_fire :: real
  r_device :: real
  r_id :: real
  r_lat :: real
  r_lng :: real

text \<open>
  \<^verbatim>\<open>devices[Math.floor(Math.random() * devices.length)]\<close>: an index outside the array
  reads \<^verbatim>\<open>undefined\<close>, which is \<open>None\<close> here.
\<close>

definition randomDevice :: "Device list \<Rightarrow> real \<Rightarrow> Device option" where
  "randomDevice devices r =
     (let i = \<lfloor>r * real (length devices)\<rfloor>
      in if 0 \<le> i \<and> i < int (length devices) then Some (devices ! nat i) else None)"

text \<open>
  The object literal \<^verbatim>\<open>newAlert\<close>. Reading \<^verbatim>\<open>randomDevice.location\<close> of \<^verbatim>\<open>undefined\<close>
  throws a \<^verbatim>\<open>TypeError\<close>. \<open>now\<close> is \<^verbatim>\<open>new Date().toISOString()\<close>.
\<close>

definition newAlert :: "Device list \<Rightarrow> Draws \<Rightarrow> string \<Rightarrow> js_error + Alert" where
  "newAlert devices r now =
     (case randomDevice devices (r_device r) of
        None \<Rightarrow> Inl TypeError
      | Some d \<Rightarrow>
          Inr \<lparr>alert_id = ''A'' @ numberToString \<lfloor>r_id r * 1000\<rfloor>,
               alert_timestamp = now,
               alert_location =
                 \<lparr>lat = lat (device_location d) + (r_lat r - 0.5) * 0.01,
                  lng = lng (device_location d) + (r_lng r - 0.5) * 0.01\<rparr>,
               alert_severity = High,
               alert_deviceId = device_id d\<rparr>)"

text \<open>
  The callback of \<^verbatim>\<open>setInterval\<close>: on a firing tick the new alert is put in front of the
  ledger (\<^verbatim>\<open>[newAlert, ...prev]\<close>) and becomes the alert of the notification modal.
\<close>

definition intervalCallback :: "Device list \<Rightarrow> Draws \<Rightarrow> string \<Rightarrow> AppState \<Rightarrow> js_error + AppState" where
  "intervalCallback devices r now s =
     (if r_fire r > 0.9
      then (case newAlert devices r now of
              Inl e \<Rightarrow> Inl e
            | Inr a \<Rightarrow> Inr (s\<lparr>alerts := a # alerts s, highSeverityAlert := Some a\<rparr>))
      else Inr s)"

text \<open>
  Everything that writes one of the state cells: the timer, the notification modal's
  \<^verbatim>\<open>onClose\<close> (\<open>Acknowledge\<close>), the sidebar and the device cards. An exception thrown
  by the timer callback leaves it before any setter was called, so the state is kept.
\<close>

datatype Event =
    TimerTick Draws string
  | Acknowledge
  | NavigateTo NavPage
  | OpenSidebar
  | CloseSidebar
  | SelectDevice Device
  | CloseDeviceDetail

fun step :: "Device list \<Rightarrow> AppState \<Rightarrow> Event \<Rightarrow> AppState" where
  "step devices s (TimerTick r now) =
     (case intervalCallback devices r now s of Inl e \<Rightarrow> s | Inr s' \<Rightarrow> s')"
| "step devices s Acknowledge = s\<lparr>highSeverityAlert := None\<rparr>"
| "step devices s (NavigateTo page) = s\<lparr>activePage := page, isSidebarOpen := False\<rparr>"
| "step devices s OpenSidebar = s\<lparr>isSidebarOpen := True\<rparr>"
| "step devices s CloseSidebar = s\<lparr>isSidebarOpen := False\<rparr>"
| "step devices s (SelectDevice d) = s\<lparr>selectedDevice := Some d\<rparr>"
| "step devices s CloseDeviceDetail = s\<lparr>selectedDevice := None\<rparr>"

fun run :: "Device list \<Rightarrow> AppState \<Rightarrow> Event list \<Rightarrow> AppState" where
  "run devices s [] = s"
| "run devices s (ev # evs) = run devices (step devices s ev) evs"

text \<open>The alert an event hands to \<^verbatim>\<open>setAlerts\<close>, if it hands one.\<close>

fun emitted :: "Device list \<Rightarrow> Event \<Rightarrow> Alert option" where
  "emitted devices (TimerTick r now) =
     (if r_fire r > 0.9
      then (case newAlert devices r now of Inl e \<Rightarrow> None | Inr a \<Rightarrow> Some a)
      else None)"
| "emitted devices ev = None"

text \<open>The alerts a sequence of events hands to \<^verbatim>\<open>setAlerts\<close>, oldest first.\<close>

fun appended :: "Device list \<Rightarrow> Event list \<Rightarrow> Alert list" where
  "appended devices [] = []"
| "appended devices (ev # evs) =
     (case emitted devices ev of None \<Rightarrow> appended devices evs | Some a \<Rightarrow> a # appended devices evs)"



text \<open>
  The alerts handed to \<^verbatim>\<open>DeviceDetailModal\<close>:
  \<^verbatim>\<open>alerts.filter(a => a.deviceId === selectedDevice.id)\<close>.
\<close>

definition associatedAlerts :: "Alert list \<Rightarrow> Device \<Rightarrow> Alert list" where
  "associatedAlerts ledger dev = array_filter (\<lambda>a. alert_deviceId a = device_id dev) ledger"

text \<open>
  The seed data of \<^verbatim>\<open>data.ts\<close>. Its time stamps are computed from the clock at load
  time (\<^verbatim>\<open>formatISO(subHours(now, h))\<close>); \<open>ago h\<close> stands for that string, with \<open>h\<close> in
  tenths of an hour.
\<close>

definition mockAlerts :: "(nat \<Rightarrow> string) \<Rightarrow> Alert list" where
  "mockAlerts ago =
     [\<lparr>alert_id = ''A001'', alert_timestamp = ago 10, alert_location = \<lparr>lat = 6.8, lng = 80.8\<rparr>,
       alert_severity = High, alert_deviceId = ''D101''\<rparr>,
      \<lparr>alert_id = ''A002'', alert_timestamp = ago 20, alert_location = \<lparr>lat = 6.82, lng = 80.81\<rparr>,
       alert_severity = Medium, alert_deviceId = ''D102''\<rparr>,
      \<lparr>alert_id = ''A003'', alert_timestamp = ago 50, alert_location = \<lparr>lat = 6.79, lng = 80.78\<rparr>,
       alert_severity = Low, alert_deviceId = ''D103''\<rparr>,
      \<lparr>alert_id = ''A004'', alert_timestamp = ago 80, alert_location = \<lparr>lat = 6.81, lng = 80.83\<rparr>,
       alert_severity = Resolved, alert_deviceId = ''D101''\<rparr>,
      \<lparr>alert_id = ''A005'', alert_timestamp = ago 120, alert_location = \<lparr>lat = 6.83, lng = 80.79\<rparr>,
       alert_severity = Resolved, alert_deviceId = ''D104''\<rparr>]"

definition mockDevices :: "(nat \<Rightarrow> string) \<Rightarrow> Device list" where
  "mockDevices ago =
     [\<lparr>device_id = ''D101'', device_status = Online, device_battery = 89, device_lastPing = ago 1,
       device_location = \<lparr>lat = 6.8, lng = 80.8\<rparr>\<rparr>,
      \<lparr>device_id = ''D102'', device_status = Online, device_battery = 72, device_lastPing = ago 2,
       device_location = \<lparr>lat = 6.82, lng = 80.81\<rparr>\<rparr>,
      \<lparr>device_id = ''D103'', device_status = LowBattery, device_battery = 15, device_lastPing = ago 10,
       device_location = \<lparr>lat = 6.79, lng = 80.78\<rparr>\<rparr>,
      \<lparr>device_id = ''D104'', device_status = Offline, device_battery = 55, device_lastPing = ago 60,
       device_location = \<lparr>lat = 6.83, lng = 80.79\<rparr>\<rparr>,
      \<lparr>device_id = ''D105'', device_status = Online, device_battery = 95, device_lastPing = ago 3,
       device_location = \<lparr>lat = 6.85, lng = 80.85\<rparr>\<rparr>]"

section \<open>The map surface (App.tsx, component MapView)\<close>

text \<open>
  What the data effect puts into the Leaflet layer group. A marker is its position, the
  colour class that the icon's markup interpolates, and the markup of its popup; a
  circle is its centre, its options and the markup of its popup.
\<close>

record CircleOptions =
  color :: string
  fillColor :: string
  fillOpacity :: real
  radius :: real

datatype Layer =
    Marker LatLng string string
  | Circle LatLng CircleOptions string

fun isCircle :: "Layer \<Rightarrow> bool" where
  "isCircle (Circle pos opts popup) = True"
| "isCircle (Marker pos cls popup) = False"

definition statusColorClass :: "DeviceStatus \<Rightarrow> string" where
  "statusColorClass st =
     (if st = Online then ''bg-green-500''
      else if st = LowBattery then ''bg-yellow-500''
      else ''bg-red-500'')"

text \<open>The body of \<^verbatim>\<open>devices.forEach\<close>: one marker is added to the layer group.\<close>

definition addDeviceMarker :: "Layer list \<Rightarrow> Device \<Rightarrow> Layer list" where
  "addDeviceMarker layerGroup device =
     layerGroup @
       [Marker \<lparr>lat = lat (device_location device), lng = lng (device_location device)\<rparr>
          (statusColorClass (device_status device))
          (''<b>Device:</b> '' @ device_id device @ ''<br><b>Battery:</b> '' @
             natToString (device_battery device) @ ''%'')]"

text \<open>The body of \<^verbatim>\<open>alerts.forEach\<close>: a circle is added unless the alert is resolved.\<close>

definition addAlertCircle :: "Layer list \<Rightarrow> Alert \<Rightarrow> Layer list" where
  "addAlertCircle layerGroup alert =
     (if alert_severity alert \<noteq> Resolved
      then (let c = (if alert_severity alert = High then ''red'' else ''orange'')
            in layerGroup @
                 [Circle \<lparr>lat = lat (alert_location alert), lng = lng (alert_location alert)\<rparr>
                    \<lparr>color = c, fillColor = c, fillOpacity = 0.3, radius = 200\<rparr>
                    (''<b>Alert:</b> '' @ alert_id alert @ ''<br><b>Severity:</b> '' @
                       severityString (alert_severity alert))])
      else layerGroup)"

text \<open>\<^verbatim>\<open>clearLayers()\<close> followed by the two loops.\<close>

definition syncLayers :: "Device list \<Rightarrow> Alert list \<Rightarrow> Layer list" where
  "syncLayers devices alertList =
     array_forEach addAlertCircle alertList (array_forEach addDeviceMarker devices [])"

text \<open>
  The three refs of one mounted \<^verbatim>\<open>MapView\<close>, and the Leaflet library's side: how often
  \<^verbatim>\<open>L.map\<close> and \<^verbatim>\<open>map.remove\<close> have been called.
\<close>

record LeafletMap =
  map_center :: "real \<times> real"
  map_zoom :: int

record MapViewRefs =
  mapContainerRef :: bool
  mapRef :: "LeafletMap option"
  dataLayerRef :: "Layer list option"

record Leaflet =
  mapsCreated :: nat
  mapsRemoved :: nat

record MapViewProps =
  p_devices :: "Device list"
  p_alerts :: "Alert list"
  p_center :: "real \<times> real"
  p_zoom :: int

text \<open>The initialization effect and the clean-up function it returns.\<close>

definition initEffect :: "real \<times> real \<Rightarrow> int \<Rightarrow> Leaflet \<times> MapViewRefs \<Rightarrow> Leaflet \<times> MapViewRefs" where
  "initEffect center zoom = (\<lambda>(w, v).
     if mapContainerRef v \<and> mapRef v = None
     then (w\<lparr>mapsCreated := Suc (mapsCreated w)\<rparr>,
           v\<lparr>dataLayerRef := Some [], mapRef := Some \<lparr>map_center = center, map_zoom = zoom\<rparr>\<rparr>)
     else (w, v))"

definition initCleanup :: "Leaflet \<times> MapViewRefs \<Rightarrow> Leaflet \<times> MapViewRefs" where
  "initCleanup = (\<lambda>(w, v).
     case mapRef v of
       Some m \<Rightarrow> (w\<lparr>mapsRemoved := Suc (mapsRemoved w)\<rparr>, v\<lparr>mapRef := None\<rparr>)
     | None \<Rightarrow> (w, v))"

text \<open>The effect on \<^verbatim>\<open>[center, zoom]\<close> and the effect on \<^verbatim>\<open>[devices, alerts]\<close>.\<close>

definition viewEffect :: "real \<times> real \<Rightarrow> int \<Rightarrow> Leaflet \<times> MapViewRefs \<Rightarrow> Leaflet \<times> MapViewRefs" where
  "viewEffect center zoom = (\<lambda>(w, v).
     case mapRef v of
       Some m \<Rightarrow> (w, v\<lparr>mapRef := Some (m\<lparr>map_center := center, map_zoom := zoom\<rparr>)\<rparr>)
     | None \<Rightarrow> (w, v))"

definition dataEffect :: "Device list \<Rightarrow> Alert list \<Rightarrow> Leaflet \<times> MapViewRefs \<Rightarrow> Leaflet \<times> MapViewRefs" where
  "dataEffect devices alertList = (\<lambda>(w, v).
     case dataLayerRef v of
       Some layerGroup \<Rightarrow> (w, v\<lparr>dataLayerRef := Some (syncLayers devices alertList)\<rparr>)
     | None \<Rightarrow> (w, v))"

text \<open>
  The life of one component instance under React: on mount the refs are fresh (the
  container ref holds the \<^verbatim>\<open>div\<close> when it was attached) and the three effects run in
  the order of their declaration; a later render re-runs the view effect or the data
  effect when its dependencies changed; on unmount the clean-up function runs.
\<close>

datatype Update =
    ViewChanged "real \<times> real" int
  | DataChanged "Device list" "Alert list"

fun applyUpdate :: "Leaflet \<times> MapViewRefs \<Rightarrow> Update \<Rightarrow> Leaflet \<times> MapViewRefs" where
  "applyUpdate x (ViewChanged center zoom) = viewEffect center zoom x"
| "applyUpdate x (DataChanged devices alertList) = dataEffect devices alertList x"

definition mount :: "bool \<Rightarrow> MapViewProps \<Rightarrow> Leaflet \<Rightarrow> Leaflet \<times> MapViewRefs" where
  "mount container p w =
     dataEffect (p_devices p) (p_alerts p)
       (viewEffect (p_center p) (p_zoom p)
          (initEffect (p_center p) (p_zoom p)
             (w, \<lparr>mapContainerRef = container, mapRef = None, dataLayerRef = None\<rparr>)))"

definition unmount :: "Leaflet \<times> MapViewRefs \<Rightarrow> Leaflet" where
  "unmount x = fst (initCleanup x)"

text \<open>One mount, the renders that follow it, and the unmount.\<close>

record MountCycle =
  cycle_container :: bool
  cycle_props :: MapViewProps
  cycle_updates :: "Update list"

definition mountCycle :: "Leaflet \<Rightarrow> MountCycle \<Rightarrow> Leaflet" where
  "mountCycle w c =
     unmount (foldl applyUpdate (mount (cycle_container c) (cycle_props c) w) (cycle_updates c))"

definition mountCycles :: "Leaflet \<Rightarrow> MountCycle list \<Rightarrow> Leaflet" where
  "mountCycles w cs = foldl mountCycle w cs"

text \<open>The \<^verbatim>\<open>MapView\<close> elements of \<^verbatim>\<open>DashboardPage\<close> and of \<^verbatim>\<open>MapPage\<close>, and \<^verbatim>\<open>renderPage\<close>.\<close>

definition dashboardMiniMap :: "Alert list \<Rightarrow> Device list \<Rightarrow> MapViewProps" where
  "dashboardMiniMap alertList devices =
     \<lparr>p_devices = devices, p_alerts = [], p_center = (6.8, 80.8), p_zoom = 11\<rparr>"

definition mapPageMap :: "Alert list \<Rightarrow> Device list \<Rightarrow> MapViewProps" where
  "mapPageMap alertList devices =
     \<lparr>p_devices = devices, p_alerts = alertList, p_center = (6.8, 80.8), p_zoom = 12\<rparr>"

fun renderPageMap :: "Device list \<Rightarrow> AppState \<Rightarrow> MapViewProps option" where
  "renderPageMap devices s =
     (case activePage s of
        Dashboard \<Rightarrow> Some (dashboardMiniMap (alerts s) devices)
      | MapPage \<Rightarrow> Some (mapPageMap (alerts s) devices)
      | _ \<Rightarrow> None)"

section \<open>The synthesizer's arithmetic in binary64\<close>

text \<open>
  Rounding to the nearest binary64 value, ties to even: a value is scaled by its unit in
  the last place (53 significant bits, the exponent not below that of the subnormal
  numbers), rounded to an integer and scaled back. Overflow to infinity is not
  represented; no operation of the synthesizer on finite coordinates reaches it.
\<close>

definition round_even :: "real \<Rightarrow> int" where
  "round_even y =
     (let f = \<lfloor>y\<rfloor>; d = y - of_int f
      in if d < 1 / 2 then f else if 1 / 2 < d then f + 1 else if even f then f else f + 1)"

definition ulp_exp :: "real \<Rightarrow> int" where
  "ulp_exp x = max \<lfloor>log 2 \<bar>x\<bar>\<rfloor> (- 1022) - 52"

definition fl64 :: "real \<Rightarrow> real" where
  "fl64 x =
     (if x = 0 then 0
      else 2 powr of_int (ulp_exp x) * of_int (round_even (x / 2 powr of_int (ulp_exp x))))"

text \<open>
  The synthesizer with every arithmetic operation rounded: the product for the device
  index, the product for the identifier, and \<^verbatim>\<open>(Math.random() - 0.5) * 0.01\<close> added to a
  coordinate, where \<^verbatim>\<open>0.01\<close> and \<^verbatim>\<open>0.9\<close> are the binary64 values nearest to the decimal
  literals and \<^verbatim>\<open>0.5\<close> is exact.
\<close>

definition randomDevice64 :: "Device list \<Rightarrow> real \<Rightarrow> Device option" where
  "randomDevice64 devices r =
     (let i = \<lfloor>fl64 (r * real (length devices))\<rfloor>
      in if 0 \<le> i \<and> i < int (length devices) then Some (devices ! nat i) else None)"

definition noise64 :: "real \<Rightarrow> real" where
  "noise64 r = fl64 (fl64 (r - 1 / 2) * fl64 (1 / 100))"

definition newAlert64 :: "Device list \<Rightarrow> Draws \<Rightarrow> string \<Rightarrow> js_error + Alert" where
  "newAlert64 devices r now =
     (case randomDevice64 devices (r_device r) of
        None \<Rightarrow> Inl TypeError
      | Some d \<Rightarrow>
          Inr \<lparr>alert_id = ''A'' @ numberToString \<lfloor>fl64 (r_id r * 1000)\<rfloor>,
               alert_timestamp = now,
               alert_location =
                 \<lparr>lat = fl64 (lat (device_location d) + noise64 (r_lat r)),
                  lng = fl64 (lng (device_location d) + noise64 (r_lng r))\<rparr>,
               alert_severity = High,
               alert_deviceId = device_id d\<rparr>)"

definition intervalCallback64 :: "Device list \<Rightarrow> Draws \<Rightarrow> string \<Rightarrow> AppState \<Rightarrow> js_error + AppState" where
  "intervalCallback64 devices r now s =
     (if r_fire r > fl64 (9 / 10)
      then (case newAlert64 devices r now of
              Inl e \<Rightarrow> Inl e
            | Inr a \<Rightarrow> Inr (s\<lparr>alerts := a # alerts s, highSeverityAlert := Some a\<rparr>))
      else Inr s)"

section \<open>A sample session\<close>

text \<open>
  Concrete data for evaluating the definitions: a load time, three outcomes of the random
  draws (two that fire, one that does not) and the two alerts that the firing draws
  synthesize from the seed devices.
\<close>

definition sampleAgo :: "nat \<Rightarrow> string" where
  "sampleAgo h = ''2024-05-01T08:00:00+05:30''"

definition sampleDrawsA :: Draws where
  "sampleDrawsA = \<lparr>r_fire = 0.95, r_device = 0.5, r_id = 0.1234, r_lat = 0.25, r_lng = 0.75\<rparr>"

definition sampleDrawsB :: Draws where
  "sampleDrawsB = \<lparr>r_fire = 0.99, r_device = 0, r_id = 0.042, r_lat = 0, r_lng = 0.5\<rparr>"

definition sampleDrawsQuiet :: Draws where
  "sampleDrawsQuiet = \<lparr>r_fire = 0.3, r_device = 0, r_id = 0, r_lat = 0, r_lng = 0\<rparr>"

definition sampleAlertA :: Alert where
  "sampleAlertA = \<lparr>alert_id = ''A123'', alert_timestamp = ''2024-05-01T03:00:15.000Z'',
     alert_location = \<lparr>lat = 6.7875, lng = 80.7825\<rparr>, alert_severity = High,
     alert_deviceId = ''D103''\<rparr>"

definition sampleAlertB :: Alert where
  "sampleAlertB = \<lparr>alert_id = ''A42'', alert_timestamp = ''2024-05-01T03:00:45.000Z'',
     alert_location = \<lparr>lat = 6.795, lng = 80.8\<rparr>, alert_severity = High,
     alert_deviceId = ''D101''\<rparr>"

definition sampleCycle :: MountCycle where
  "sampleCycle =
     \<lparr>cycle_container = True,
      cycle_props = mapPageMap (mockAlerts sampleAgo) (mockDevices sampleAgo),
      cycle_updates = [DataChanged (mockDevices sampleAgo) (sampleAlertA # mockAlerts sampleAgo),
                       ViewChanged (6.8, 80.8) 12]\<rparr>"

text \<open>
  A device at coordinate 10 and draws whose latitude noise is the lowest possible, with
  the alert that the binary64 synthesizer builds from them.
\<close>

definition sampleDeviceTen :: Device where
  "sampleDeviceTen = \<lparr>device_id = ''D900'', device_status = Online, device_battery = 50,
     device_lastPing = sampleAgo 0, device_location = \<lparr>lat = 10, lng = 10\<rparr>\<rparr>"

definition sampleDrawsLow :: Draws where
  "sampleDrawsLow = \<lparr>r_fire = 0.95, r_device = 0, r_id = 0, r_lat = 0, r_lng = 0.5\<rparr>"

definition sampleAlertLow :: Alert where
  "sampleAlertLow = \<lparr>alert_id = ''A0'', alert_timestamp = ''2024-05-01T03:00:15.000Z'',
     alert_location = \<lparr>lat = 5626684784446013 / 2 ^ 49, lng = 10\<rparr>, alert_severity = High,
     alert_deviceId = ''D900''\<rparr>"

section \<open>Basic facts\<close>

lemma array_filter_from_eq:
  "array_filter_from p xs k acc = acc @ filter p (drop k xs)"
proof (induction p xs k acc rule: array_filter_from.induct)
  case (1 p xs k acc)
  show ?case
  proof (cases "k < length xs")
    case True
    then have d: "drop k xs = xs ! k # drop (Suc k) xs"
      by (simp add: Cons_nth_drop_Suc)
    from True "1" show ?thesis
      by (subst array_filter_from.simps) (simp add: d)
  next
    case False
    then show ?thesis
      by (subst array_filter_from.simps) simp
  qed
qed

lemma array_filter_eq: "array_filter p xs = filter p xs"
  by (simp add: array_filter_def array_filter_from_eq)

lemma step_alerts:
  "alerts (step devices s ev) =
     (case emitted devices ev of None \<Rightarrow> alerts s | Some a \<Rightarrow> a # alerts s)"
  by (cases ev) (simp_all add: intervalCallback_def split: sum.splits)

lemma run_alerts: "alerts (run devices s evs) = rev (appended devices evs) @ alerts s"
  by (induction evs arbitrary: s) (simp_all add: step_alerts split: option.splits)

lemma emitted_High: "emitted devices ev = Some a \<Longrightarrow> alert_severity a = High"
  by (cases ev) (auto simp: newAlert_def split: if_splits sum.splits option.splits)

lemma step_gate:
  "highSeverityAlert (step devices s ev) =
     (if ev = Acknowledge then None
      else case emitted devices ev of None \<Rightarrow> highSeverityAlert s | Some a \<Rightarrow> Some a)"
  by (cases ev) (simp_all add: intervalCallback_def split: sum.splits)



lemma run_append: "run devices s (xs @ ys) = run devices (run devices s xs) ys"
  by (induction xs arbitrary: s) simp_all

lemma run_quiet_gate:
  "\<forall>ev\<in>set evs. ev \<noteq> Acknowledge \<and> emitted devices ev = None \<Longrightarrow>
   highSeverityAlert (run devices s evs) = highSeverityAlert s"
  by (induction evs arbitrary: s) (simp_all add: step_gate)

lemma run_silent_gate_None:
  "\<forall>ev\<in>set evs. emitted devices ev = None \<Longrightarrow> highSeverityAlert s = None \<Longrightarrow>
   highSeverityAlert (run devices s evs) = None"
  by (induction evs arbitrary: s) (simp_all add: step_gate)

lemma appended_quiet: "\<forall>ev\<in>set evs. P ev \<and> emitted devices ev = None \<Longrightarrow> appended devices evs = []"
  by (induction evs) simp_all

lemma appended_append: "appended devices (xs @ ys) = appended devices xs @ appended devices ys"
  by (induction xs) (simp_all split: option.splits)

lemma natToString_123: "natToString 123 = ''123''"
  by (simp add: natToString.simps digitChar_def)

lemma natToString_42: "natToString 42 = ''42''"
  by (simp add: natToString.simps digitChar_def)

lemma newAlert_sampleA:
  "newAlert (mockDevices sampleAgo) sampleDrawsA ''2024-05-01T03:00:15.000Z'' = Inr sampleAlertA"
  by (simp add: newAlert_def randomDevice_def mockDevices_def sampleDrawsA_def sampleAlertA_def
      numberToString_def natToString_123)

lemma newAlert_sampleB:
  "newAlert (mockDevices sampleAgo) sampleDrawsB ''2024-05-01T03:00:45.000Z'' = Inr sampleAlertB"
  by (simp add: newAlert_def randomDevice_def mockDevices_def sampleDrawsB_def sampleAlertB_def
      numberToString_def natToString_42)

lemma emitted_sampleA:
  "emitted (mockDevices sampleAgo) (TimerTick sampleDrawsA ''2024-05-01T03:00:15.000Z'') = Some sampleAlertA"
  by (simp add: newAlert_sampleA) (simp add: sampleDrawsA_def)

lemma emitted_sampleB:
  "emitted (mockDevices sampleAgo) (TimerTick sampleDrawsB ''2024-05-01T03:00:45.000Z'') = Some sampleAlertB"
  by (simp add: newAlert_sampleB) (simp add: sampleDrawsB_def)

lemma emitted_sampleQuiet:
  "emitted devices (TimerTick sampleDrawsQuiet now) = None"
  by (simp add: sampleDrawsQuiet_def)

lemma sampleAlerts_differ: "sampleAlertA \<noteq> sampleAlertB"
  by (simp add: sampleAlertA_def sampleAlertB_def)

section \<open>The synthesizer on an empty device set\<close>


lemma empty_device_set_firing_tick_throws:
  "intervalCallback [] sampleDrawsA ''2024-05-01T03:00:15.000Z'' (initialState (mockAlerts sampleAgo))
     = Inl TypeError"
  by (simp add: intervalCallback_def newAlert_def randomDevice_def sampleDrawsA_def)




section \<open>The alert ledger\<close>

text \<open>
  Claim C2: for every sequence of events, the ledger afterwards is the alerts that were
  handed to it, newest first, in front of the ledger before; so every alert that was
  present is retained, unchanged and in its place (the old ledger is a suffix of the new
  one), and one event either leaves the ledger as it is or puts one alert at its front.
\<close>

theorem ledger_prepend_only:
  "alerts (run devices s evs) = rev (appended devices evs) @ alerts s
   \<and> suffix (alerts s) (alerts (run devices s evs))
   \<and> (alerts (step devices s ev) = alerts s
        \<or> (\<exists>a. emitted devices ev = Some a \<and> alerts (step devices s ev) = a # alerts s))"
proof -
  have whole: "alerts (run devices s evs) = rev (appended devices evs) @ alerts s"
    by (rule run_alerts)
  then have kept: "suffix (alerts s) (alerts (run devices s evs))"
    by (simp add: suffix_def)
  have one: "alerts (step devices s ev) = alerts s
        \<or> (\<exists>a. emitted devices ev = Some a \<and> alerts (step devices s ev) = a # alerts s)"
    by (cases "emitted devices ev") (simp_all add: step_alerts)
  from whole kept one show ?thesis by blast
qed

text \<open>The ledger after four events of the sample session.\<close>

theorem ledger_prepend_only_witness:
  "alerts (run (mockDevices sampleAgo) (initialState (mockAlerts sampleAgo))
       [TimerTick sampleDrawsA ''2024-05-01T03:00:15.000Z'', Acknowledge,
        TimerTick sampleDrawsQuiet ''2024-05-01T03:00:30.000Z'',
        TimerTick sampleDrawsB ''2024-05-01T03:00:45.000Z''])
     = sampleAlertB # sampleAlertA # mockAlerts sampleAgo"
proof -
  let ?evs = "[TimerTick sampleDrawsA ''2024-05-01T03:00:15.000Z'', Acknowledge,
        TimerTick sampleDrawsQuiet ''2024-05-01T03:00:30.000Z'',
        TimerTick sampleDrawsB ''2024-05-01T03:00:45.000Z'']"
  have apd: "appended (mockDevices sampleAgo) ?evs = [sampleAlertA, sampleAlertB]"
    by (simp only: appended.simps emitted_sampleA emitted_sampleB emitted_sampleQuiet
        emitted.simps(2) option.case)
  have "alerts (run (mockDevices sampleAgo) (initialState (mockAlerts sampleAgo)) ?evs)
      = rev (appended (mockDevices sampleAgo) ?evs) @ alerts (initialState (mockAlerts sampleAgo))"
    by (rule conjunct1 [OF ledger_prepend_only])
  also have "\<dots> = sampleAlertB # sampleAlertA # mockAlerts sampleAgo"
    by (simp only: apd) (simp add: initialState_def)
  finally show ?thesis .
qed

section \<open>The notification gate\<close>




text \<open>
  Claim C4: when two events append an alert each and no acknowledgement (and no other
  append) lies between them, the first alert is displayed until the second event, and
  after it the modal's alert is the second alert, not the first; both are in the ledger,
  the second in front.
\<close>

theorem second_high_alert_replaces_first:
  assumes e1: "emitted devices e1 = Some a1"
      and e2: "emitted devices e2 = Some a2"
      and mid: "\<forall>ev\<in>set mid. ev \<noteq> Acknowledge \<and> emitted devices ev = None"
  shows "alert_severity a1 = High \<and> alert_severity a2 = High
     \<and> highSeverityAlert (run devices s (e1 # mid)) = Some a1
     \<and> highSeverityAlert (run devices s (e1 # mid @ [e2])) = Some a2
     \<and> (a1 \<noteq> a2 \<longrightarrow> highSeverityAlert (run devices s (e1 # mid @ [e2])) \<noteq> Some a1)
     \<and> alerts (run devices s (e1 # mid @ [e2])) = a2 # a1 # alerts s"
proof -
  have n1: "e1 \<noteq> Acknowledge" and n2: "e2 \<noteq> Acknowledge"
    using e1 e2 by auto
  have first: "highSeverityAlert (run devices s (e1 # mid)) = Some a1"
    using e1 n1 mid by (simp add: run_quiet_gate step_gate)
  have "run devices s (e1 # mid @ [e2]) = step devices (run devices s (e1 # mid)) e2"
    using run_append [of devices s "e1 # mid" "[e2]"] by simp
  then have second: "highSeverityAlert (run devices s (e1 # mid @ [e2])) = Some a2"
    using e2 n2 by (simp add: step_gate)
  have apd: "appended devices (e1 # mid @ [e2]) = [a1, a2]"
    using e1 e2 appended_quiet [OF mid] by (simp add: appended_append)
  have ledger: "alerts (run devices s (e1 # mid @ [e2])) = a2 # a1 # alerts s"
    by (subst run_alerts) (simp only: apd, simp)
  from first second ledger emitted_High [OF e1] emitted_High [OF e2] show ?thesis
    by simp
qed

text \<open>Two firing ticks with a navigation and a quiet tick between them.\<close>

theorem second_high_alert_replaces_first_witness:
  "highSeverityAlert (run (mockDevices sampleAgo) (initialState (mockAlerts sampleAgo))
       [TimerTick sampleDrawsA ''2024-05-01T03:00:15.000Z'',
        NavigateTo MapPage, TimerTick sampleDrawsQuiet ''2024-05-01T03:00:30.000Z'',
        TimerTick sampleDrawsB ''2024-05-01T03:00:45.000Z'']) = Some sampleAlertB
   \<and> highSeverityAlert (run (mockDevices sampleAgo) (initialState (mockAlerts sampleAgo))
       [TimerTick sampleDrawsA ''2024-05-01T03:00:15.000Z'',
        NavigateTo MapPage, TimerTick sampleDrawsQuiet ''2024-05-01T03:00:30.000Z'',
        TimerTick sampleDrawsB ''2024-05-01T03:00:45.000Z'']) \<noteq> Some sampleAlertA
   \<and> alerts (run (mockDevices sampleAgo) (initialState (mockAlerts sampleAgo))
       [TimerTick sampleDrawsA ''2024-05-01T03:00:15.000Z'',
        NavigateTo MapPage, TimerTick sampleDrawsQuiet ''2024-05-01T03:00:30.000Z'',
        TimerTick sampleDrawsB ''2024-05-01T03:00:45.000Z''])
     = sampleAlertB # sampleAlertA # mockAlerts sampleAgo"
proof -
  let ?D = "mockDevices sampleAgo"
  let ?mid = "[NavigateTo MapPage, TimerTick sampleDrawsQuiet ''2024-05-01T03:00:30.000Z'']"
  have mid: "\<forall>ev\<in>set ?mid. ev \<noteq> Acknowledge \<and> emitted ?D ev = None"
    by (simp only: list.set ball_simps emitted_sampleQuiet) simp
  note inst = second_high_alert_replaces_first [OF emitted_sampleA emitted_sampleB mid,
      of "initialState (mockAlerts sampleAgo)"]
  have init: "alerts (initialState (mockAlerts sampleAgo)) = mockAlerts sampleAgo"
    by (simp add: initialState_def)
  from inst sampleAlerts_differ show ?thesis
    unfolding append.simps init by blast
qed

text \<open>
  Claim C5: after the acknowledgement the modal's alert is none; it stays none over every
  sequence of events that append no alert, and the next event that appends an alert (of
  severity High, as all are) makes that alert the modal's; and an event that takes the
  modal from some alert to none is the acknowledgement.
\<close>

theorem acknowledge_clears_until_next_alert:
  "highSeverityAlert (step devices s Acknowledge) = None
   \<and> ((\<forall>ev\<in>set evs. emitted devices ev = None) \<longrightarrow>
        highSeverityAlert (run devices (step devices s Acknowledge) evs) = None)
   \<and> ((\<forall>ev\<in>set evs. emitted devices ev = None) \<and> emitted devices e = Some a \<longrightarrow>
        highSeverityAlert (run devices (step devices s Acknowledge) (evs @ [e])) = Some a
        \<and> alert_severity a = High)
   \<and> (highSeverityAlert s \<noteq> None \<and> highSeverityAlert (step devices s ev) = None \<longrightarrow>
        ev = Acknowledge)"
proof -
  have clear: "highSeverityAlert (step devices s Acknowledge) = None"
    by simp
  have stays: "(\<forall>ev\<in>set evs. emitted devices ev = None) \<longrightarrow>
        highSeverityAlert (run devices (step devices s Acknowledge) evs) = None"
    using run_silent_gate_None [of evs devices "step devices s Acknowledge"] by simp
  have "emitted devices e = Some a \<longrightarrow>
        highSeverityAlert (run devices (step devices s Acknowledge) (evs @ [e])) = Some a
        \<and> alert_severity a = High"
    using emitted_High [of devices e a] by (auto simp: run_append step_gate)
  then have again: "(\<forall>ev\<in>set evs. emitted devices ev = None) \<and> emitted devices e = Some a \<longrightarrow>
        highSeverityAlert (run devices (step devices s Acknowledge) (evs @ [e])) = Some a
        \<and> alert_severity a = High"
    by blast
  have only: "highSeverityAlert s \<noteq> None \<and> highSeverityAlert (step devices s ev) = None \<longrightarrow>
        ev = Acknowledge"
    by (auto simp: step_gate split: if_splits option.splits)
  from clear stays again only show ?thesis by blast
qed

text \<open>An acknowledgement, two events that append nothing, and a firing tick.\<close>

theorem acknowledge_clears_until_next_alert_witness:
  "highSeverityAlert (step (mockDevices sampleAgo)
       ((initialState (mockAlerts sampleAgo))\<lparr>highSeverityAlert := Some sampleAlertA\<rparr>)
       Acknowledge) = None
   \<and> highSeverityAlert (run (mockDevices sampleAgo)
       (step (mockDevices sampleAgo)
          ((initialState (mockAlerts sampleAgo))\<lparr>highSeverityAlert := Some sampleAlertA\<rparr>)
          Acknowledge)
       [NavigateTo Alerts, TimerTick sampleDrawsQuiet ''2024-05-01T03:00:30.000Z'']) = None
   \<and> highSeverityAlert (run (mockDevices sampleAgo)
       (step (mockDevices sampleAgo)
          ((initialState (mockAlerts sampleAgo))\<lparr>highSeverityAlert := Some sampleAlertA\<rparr>)
          Acknowledge)
       ([NavigateTo Alerts, TimerTick sampleDrawsQuiet ''2024-05-01T03:00:30.000Z'']
          @ [TimerTick sampleDrawsB ''2024-05-01T03:00:45.000Z''])) = Some sampleAlertB"
proof -
  let ?D = "mockDevices sampleAgo"
  let ?evs = "[NavigateTo Alerts, TimerTick sampleDrawsQuiet ''2024-05-01T03:00:30.000Z'']"
  have silent: "\<forall>ev\<in>set ?evs. emitted ?D ev = None"
    by (simp only: list.set ball_simps emitted_sampleQuiet) simp
  note inst = acknowledge_clears_until_next_alert [of ?D
      "(initialState (mockAlerts sampleAgo))\<lparr>highSeverityAlert := Some sampleAlertA\<rparr>" ?evs
      "TimerTick sampleDrawsB ''2024-05-01T03:00:45.000Z''" sampleAlertB Acknowledge]
  from inst silent emitted_sampleB show ?thesis
    by blast
qed

section \<open>The alerts of one device\<close>

text \<open>
  Claim C6: the alerts handed to the device detail view are the ledger filtered by the
  device's identifier. They form a subsequence of the ledger, hold every alert of the
  ledger with that identifier as often as the ledger does and no other alert, and every
  subsequence of the ledger made of alerts with that identifier is a subsequence of them.
\<close>

theorem by_device_exact:
  "associatedAlerts ledger dev = filter (\<lambda>a. alert_deviceId a = device_id dev) ledger
   \<and> subseq (associatedAlerts ledger dev) ledger
   \<and> (\<forall>a. count_list (associatedAlerts ledger dev) a =
          (if alert_deviceId a = device_id dev then count_list ledger a else 0))
   \<and> (\<forall>ys. subseq ys ledger \<and> (\<forall>a\<in>set ys. alert_deviceId a = device_id dev) \<longrightarrow>
          subseq ys (associatedAlerts ledger dev))"
proof -
  let ?P = "\<lambda>a. alert_deviceId a = device_id dev"
  have eq: "associatedAlerts ledger dev = filter ?P ledger"
    by (simp add: associatedAlerts_def array_filter_eq)
  have sub: "subseq (filter ?P ledger) ledger"
    by simp
  have cnt: "count_list (filter ?P ledger) a = (if ?P a then count_list ledger a else 0)" for a
    by (induction ledger) auto
  have mx: "subseq ys (filter ?P ledger)"
    if "subseq ys ledger \<and> (\<forall>a\<in>set ys. ?P a)" for ys
  proof -
    from that have keep: "filter ?P ys = ys"
      by (simp add: filter_id_conv)
    from that have "subseq ys ledger"
      by simp
    then have "subseq (filter ?P ys) (filter ?P ledger)"
      by (rule subseq_filter)
    then show ?thesis
      by (simp only: keep)
  qed
  from eq sub cnt mx show ?thesis
    by (simp only: eq) blast
qed

text \<open>The alerts of device D101 among the seed alerts.\<close>

theorem by_device_exact_witness:
  "associatedAlerts (mockAlerts sampleAgo) (hd (mockDevices sampleAgo))
     = [mockAlerts sampleAgo ! 0, mockAlerts sampleAgo ! 3]
   \<and> subseq [mockAlerts sampleAgo ! 3] (associatedAlerts (mockAlerts sampleAgo) (hd (mockDevices sampleAgo)))"
proof -
  let ?L = "mockAlerts sampleAgo"
  let ?d = "hd (mockDevices sampleAgo)"
  note inst = by_device_exact [of ?L ?d]
  have val: "filter (\<lambda>a. alert_deviceId a = device_id ?d) ?L = [?L ! 0, ?L ! 3]"
    by (simp add: mockAlerts_def mockDevices_def)
  have hyp: "subseq [?L ! 3] ?L \<and> (\<forall>a\<in>set [?L ! 3]. alert_deviceId a = device_id ?d)"
    by (simp add: mockAlerts_def mockDevices_def)
  from inst val hyp show ?thesis
    by (simp only:) blast
qed

section \<open>The synthesized alert\<close>

lemma round_even_error: "\<bar>of_int (round_even y) - y\<bar> \<le> 1 / 2"
proof -
  have "of_int \<lfloor>y\<rfloor> \<le> y" "y < of_int \<lfloor>y\<rfloor> + 1"
    by linarith+
  then show ?thesis
    by (auto simp: round_even_def Let_def)
qed

lemma round_even_nonneg: "0 \<le> y \<Longrightarrow> 0 \<le> round_even y"
  by (auto simp: round_even_def Let_def)

lemma round_even_int: "round_even (of_int k) = k"
  by (simp add: round_even_def)

lemma two_powr_neg: "(2::real) powr (- real n) = 1 / 2 ^ n"
  by (simp add: powr_minus powr_realpow divide_inverse)

lemma ulp_le:
  assumes "x \<noteq> 0"
  shows "2 powr of_int (ulp_exp x) \<le> \<bar>x\<bar> / 2 ^ 52 + 1 / 2 ^ 1074"
proof (cases "- 1022 \<le> \<lfloor>log 2 \<bar>x\<bar>\<rfloor>")
  case True
  then have e: "ulp_exp x = \<lfloor>log 2 \<bar>x\<bar>\<rfloor> - 52"
    by (simp add: ulp_exp_def)
  have "(2::real) powr of_int \<lfloor>log 2 \<bar>x\<bar>\<rfloor> \<le> 2 powr log 2 \<bar>x\<bar>"
    by simp
  also have "\<dots> = \<bar>x\<bar>"
    using assms by simp
  finally have le: "(2::real) powr of_int \<lfloor>log 2 \<bar>x\<bar>\<rfloor> \<le> \<bar>x\<bar>" .
  have "(2::real) powr of_int (ulp_exp x) = 2 powr (of_int \<lfloor>log 2 \<bar>x\<bar>\<rfloor> - 52)"
    by (simp add: e)
  also have "\<dots> = 2 powr of_int \<lfloor>log 2 \<bar>x\<bar>\<rfloor> / 2 powr 52"
    by (rule powr_diff)
  also have "\<dots> = 2 powr of_int \<lfloor>log 2 \<bar>x\<bar>\<rfloor> / 2 ^ 52"
    by simp
  also from le have "\<dots> \<le> \<bar>x\<bar> / 2 ^ 52"
    by (simp add: divide_right_mono)
  finally show ?thesis
    by simp
next
  case False
  then have "real_of_int (ulp_exp x) = - real 1074"
    by (simp add: ulp_exp_def)
  then have "(2::real) powr of_int (ulp_exp x) = 1 / 2 ^ 1074"
    by (simp only: two_powr_neg)
  then show ?thesis
    by simp
qed

lemma fl64_error: "\<bar>fl64 x - x\<bar> \<le> \<bar>x\<bar> / 2 ^ 53 + 1 / 2 ^ 1075"
proof (cases "x = 0")
  case True
  then show ?thesis by (simp add: fl64_def)
next
  case False
  define u :: real where "u = 2 powr of_int (ulp_exp x)"
  have upos: "0 < u"
    by (simp add: u_def)
  have "fl64 x - x = u * (of_int (round_even (x / u)) - x / u)"
    using False upos by (simp add: fl64_def u_def algebra_simps)
  then have "\<bar>fl64 x - x\<bar> = u * \<bar>of_int (round_even (x / u)) - x / u\<bar>"
    using upos by (simp add: abs_mult)
  also have "\<dots> \<le> u * (1 / 2)"
    using upos round_even_error [of "x / u"] by (intro mult_left_mono) simp_all
  also have "\<dots> \<le> (\<bar>x\<bar> / 2 ^ 52 + 1 / 2 ^ 1074) * (1 / 2)"
    using ulp_le [OF False] by (simp add: u_def)
  also have "\<dots> = \<bar>x\<bar> / 2 ^ 53 + 1 / 2 ^ 1075"
    by simp
  finally show ?thesis .
qed

lemma fl64_nonneg: "0 \<le> x \<Longrightarrow> 0 \<le> fl64 x"
  by (simp add: fl64_def round_even_nonneg)

text \<open>Evaluation: scale the argument by \<open>2 ^ k\<close> so that it has 53 significant bits.\<close>

lemma fl64_scaled:
  assumes lo: "2 ^ 52 \<le> \<bar>x\<bar> * 2 ^ k" and hi: "\<bar>x\<bar> * 2 ^ k < 2 ^ 53" and k: "k \<le> 1074"
  shows "fl64 x = of_int (round_even (x * 2 ^ k)) / 2 ^ k"
proof -
  from lo have nz: "x \<noteq> 0"
    by auto
  then have pos: "0 < \<bar>x\<bar>"
    by simp
  have pk: "(2::real) powr real k = 2 ^ k"
    by (simp add: powr_realpow)
  have "(2::real) powr (of_int (52 - int k)) = 2 powr (52 - real k)"
    by simp
  also have "\<dots> = 2 powr 52 / 2 powr real k"
    by (rule powr_diff)
  finally have p: "(2::real) powr (of_int (52 - int k)) = 2 ^ 52 / 2 ^ k"
    by (simp add: pk)
  have "(2::real) powr (of_int (52 - int k) + 1) = 2 powr (53 - real k)"
    by simp
  also have "\<dots> = 2 powr 53 / 2 powr real k"
    by (rule powr_diff)
  finally have p1: "(2::real) powr (of_int (52 - int k) + 1) = 2 ^ 53 / 2 ^ k"
    by (simp add: pk)
  have below: "(2::real) powr (of_int (52 - int k)) \<le> \<bar>x\<bar>"
    using lo by (simp only: p) (simp add: field_simps)
  have above: "\<bar>x\<bar> < (2::real) powr (of_int (52 - int k) + 1)"
    using hi by (simp only: p1) (simp add: field_simps)
  have "\<lfloor>log 2 \<bar>x\<bar>\<rfloor> = 52 - int k"
    using below above by (simp only: floor_log_eq_powr_iff [OF pos, of 2, simplified])
  with k have e: "real_of_int (ulp_exp x) = - real k"
    by (simp add: ulp_exp_def)
  have u: "(2::real) powr of_int (ulp_exp x) = 1 / 2 ^ k"
    by (simp only: e two_powr_neg)
  show ?thesis
    using nz by (simp add: fl64_def u)
qed


lemma fl64_zero: "fl64 0 = 0"
  by (simp add: fl64_def)

lemma fl64_hundredth: "fl64 (1 / 100) = 5764607523034235 / 2 ^ 59"
  by (subst fl64_scaled [of _ 59]) (simp_all add: round_even_def)

lemma fl64_minus_half: "fl64 (- (1 / 2)) = - (1 / 2)"
  by (subst fl64_scaled [of _ 53]) (simp_all add: round_even_def)

lemma fl64_ten: "fl64 10 = 10"
  by (subst fl64_scaled [of _ 49]) (simp_all add: round_even_def)

lemma noise64_zero_draw: "noise64 0 = - (5764607523034235 / 2 ^ 60)"
proof -
  have "fl64 (- (1 / 2) * (5764607523034235 / 2 ^ 59)) = - (5764607523034235 / 2 ^ 60)"
    by (subst fl64_scaled [of _ 60]) (simp_all add: round_even_def)
  then show ?thesis
    by (simp add: noise64_def fl64_minus_half fl64_hundredth)
qed

lemma noise64_half_draw: "noise64 (1 / 2) = 0"
  by (simp add: noise64_def fl64_zero)

lemma fl64_ten_low: "fl64 (10 + - (5764607523034235 / 2 ^ 60)) = 5626684784446013 / 2 ^ 49"
proof -
  let ?x = "10 + - (5764607523034235 / 2 ^ 60) :: real"
  have scaled: "?x * 2 ^ 49 = 11523450438545435525 / 2048"
    by simp
  have r: "round_even (11523450438545435525 / 2048) = 5626684784446013"
    by (simp add: round_even_def)
  have "fl64 ?x = of_int (round_even (?x * 2 ^ 49)) / 2 ^ 49"
    by (rule fl64_scaled) simp_all
  then show ?thesis
    by (simp only: scaled r)
qed

lemma lat64_sampleLow: "fl64 (10 + noise64 0) = 5626684784446013 / 2 ^ 49"
  by (simp only: noise64_zero_draw fl64_ten_low)

lemma lng64_sampleLow: "fl64 (10 + noise64 (1 / 2)) = 10"
  by (simp add: noise64_half_draw fl64_ten)

lemma natToString_0: "natToString 0 = ''0''"
  by (simp add: natToString.simps digitChar_def)

lemma newAlert64_sampleLow:
  "newAlert64 [sampleDeviceTen] sampleDrawsLow ''2024-05-01T03:00:15.000Z'' = Inr sampleAlertLow"
  by (simp add: newAlert64_def randomDevice64_def sampleDeviceTen_def sampleDrawsLow_def
      sampleAlertLow_def fl64_zero lat64_sampleLow lng64_sampleLow
      numberToString_def natToString_0)

text \<open>
  Claim C7 as the specification words it (each coordinate within 0.005 of the device's)
  does not hold in binary64: for a device at latitude 10 and a latitude draw of 0 the
  noise is the binary64 value of \<open>-0.005\<close> and the rounded sum lies 0.00500000000000078...
  below 10.
\<close>

theorem synthesized_alert_beyond_radius:
  "newAlert64 [sampleDeviceTen] sampleDrawsLow ''2024-05-01T03:00:15.000Z'' = Inr sampleAlertLow
   \<and> alert_deviceId sampleAlertLow = device_id sampleDeviceTen
   \<and> 0.005 < \<bar>lat (alert_location sampleAlertLow) - lat (device_location sampleDeviceTen)\<bar>"
  by (simp add: newAlert64_sampleLow) (simp add: sampleAlertLow_def sampleDeviceTen_def)

lemma fl64_abs_le: "\<bar>fl64 x\<bar> \<le> \<bar>x\<bar> + \<bar>x\<bar> / 2 ^ 53 + 1 / 2 ^ 1075"
  using fl64_error [of x] by linarith

lemma noise64_bound:
  assumes "0 \<le> r" "r \<le> 1"
  shows "\<bar>noise64 r\<bar> \<le> 1 / 200 + 1 / 2 ^ 55"
proof -
  define a where "a = fl64 (r - 1 / 2)"
  define c :: real where "c = 5764607523034235 / 2 ^ 59"
  have cpos: "0 \<le> c"
    by (simp add: c_def)
  from assms have "\<bar>r - 1 / 2\<bar> \<le> 1 / 2"
    by linarith
  then have "\<bar>r - 1 / 2\<bar> + \<bar>r - 1 / 2\<bar> / 2 ^ 53 + 1 / 2 ^ 1075 \<le> 1 / 2 + (1 / 2) / 2 ^ 53 + 1 / 2 ^ 1075"
    by (intro add_mono divide_right_mono) simp_all
  with fl64_abs_le [of "r - 1 / 2"] have "\<bar>a\<bar> \<le> 1 / 2 + (1 / 2) / 2 ^ 53 + 1 / 2 ^ 1075"
    unfolding a_def by linarith
  then have a: "\<bar>a\<bar> \<le> 1 / 2 + 1 / 2 ^ 53"
    by simp
  have "\<bar>a * c\<bar> = \<bar>a\<bar> * c"
    using cpos by (simp add: abs_mult)
  also have "\<dots> \<le> (1 / 2 + 1 / 2 ^ 53) * c"
    using a cpos by (rule mult_right_mono)
  finally have p: "\<bar>a * c\<bar> \<le> (1 / 2 + 1 / 2 ^ 53) * c" .
  then have "\<bar>a * c\<bar> / 2 ^ 53 \<le> (1 / 2 + 1 / 2 ^ 53) * c / 2 ^ 53"
    by (simp add: divide_right_mono)
  with p fl64_abs_le [of "a * c"]
  have "\<bar>fl64 (a * c)\<bar> \<le> (1 / 2 + 1 / 2 ^ 53) * c + (1 / 2 + 1 / 2 ^ 53) * c / 2 ^ 53 + 1 / 2 ^ 1075"
    by linarith
  also have "\<dots> \<le> 1 / 200 + 1 / 2 ^ 55"
    by (simp add: c_def)
  finally show ?thesis
    by (simp add: noise64_def a_def c_def fl64_hundredth)
qed

lemma perturbed_coordinate_bound:
  assumes "0 \<le> r" "r \<le> 1"
  shows "\<bar>fl64 (x + noise64 r) - x\<bar> \<le> 1 / 200 + (\<bar>x\<bar> + 1) / 2 ^ 53"
proof -
  define n where "n = noise64 r"
  from noise64_bound [OF assms] have n: "\<bar>n\<bar> \<le> 1 / 200 + 1 / 2 ^ 55"
    by (simp add: n_def)
  have "\<bar>x + n\<bar> \<le> \<bar>x\<bar> + \<bar>n\<bar>"
    by simp
  then have "\<bar>x + n\<bar> / 2 ^ 53 \<le> (\<bar>x\<bar> + \<bar>n\<bar>) / 2 ^ 53"
    by (simp add: divide_right_mono)
  with fl64_error [of "x + n"]
  have "\<bar>fl64 (x + n) - x\<bar> \<le> \<bar>n\<bar> + (\<bar>x\<bar> + \<bar>n\<bar>) / 2 ^ 53 + 1 / 2 ^ 1075"
    by linarith
  also have "\<dots> = \<bar>n\<bar> + \<bar>n\<bar> / 2 ^ 53 + 1 / 2 ^ 1075 + \<bar>x\<bar> / 2 ^ 53"
    by (simp add: add_divide_distrib)
  also have "\<dots> \<le> (1 / 200 + 1 / 2 ^ 55) + (1 / 200 + 1 / 2 ^ 55) / 2 ^ 53 + 1 / 2 ^ 1075 + \<bar>x\<bar> / 2 ^ 53"
    using n by (intro add_mono divide_right_mono) simp_all
  also have "\<dots> \<le> 1 / 200 + (\<bar>x\<bar> + 1) / 2 ^ 53"
    by (simp add: add_divide_distrib)
  finally show ?thesis
    by (simp add: n_def)
qed

lemma randomDevice64_in_range:
  assumes ne: "devices \<noteq> []" and lo: "0 \<le> r" and hi: "r \<le> 1 - 1 / 2 ^ 53"
  shows "randomDevice64 devices r = Some (devices ! nat \<lfloor>fl64 (r * real (length devices))\<rfloor>)
     \<and> nat \<lfloor>fl64 (r * real (length devices))\<rfloor> < length devices"
proof -
  define n where "n = real (length devices)"
  define e :: real where "e = 1 / 2 ^ 53"
  have epos: "0 < e" and esq: "1 / 2 ^ 1075 < e * e"
    by (simp_all add: e_def)
  from ne have n1: "1 \<le> n"
    by (cases devices) (simp_all add: n_def)
  let ?x = "r * n"
  from lo n1 have x0: "0 \<le> ?x"
    by simp
  then have f0: "0 \<le> fl64 ?x"
    by (rule fl64_nonneg)
  from hi n1 have xle: "?x \<le> (1 - e) * n"
    by (intro mult_right_mono) (simp_all add: e_def)
  from epos have "0 \<le> 1 + e"
    by simp
  with xle have "?x * (1 + e) \<le> (1 - e) * n * (1 + e)"
    by (rule mult_right_mono)
  also have "\<dots> = n - n * (e * e)"
    by (simp add: algebra_simps)
  finally have x1: "?x + ?x * e \<le> n - n * (e * e)"
    by (simp add: algebra_simps)
  from n1 epos have "1 * (e * e) \<le> n * (e * e)"
    by (intro mult_right_mono) simp_all
  with esq have small: "1 / 2 ^ 1075 < n * (e * e)"
    by simp
  have xe: "?x / 2 ^ 53 = ?x * e"
    by (simp add: e_def)
  from fl64_error [of ?x] x0 have "fl64 ?x \<le> ?x + ?x / 2 ^ 53 + 1 / 2 ^ 1075"
    by linarith
  then have "fl64 ?x \<le> ?x + ?x * e + 1 / 2 ^ 1075"
    by (simp only: xe)
  with x1 small have "fl64 ?x < n"
    by linarith
  then have hi': "\<lfloor>fl64 ?x\<rfloor> < int (length devices)"
    by (simp add: floor_less_iff n_def)
  from f0 have lo': "0 \<le> \<lfloor>fl64 ?x\<rfloor>"
    by simp
  from lo' hi' have "nat \<lfloor>fl64 ?x\<rfloor> < length devices"
    by linarith
  with lo' hi' show ?thesis
    by (simp add: randomDevice64_def Let_def n_def)
qed

text \<open>
  Claim C7, as the code has it: on a firing tick with a device set that is not empty and
  draws that are binary64 values in \<open>[0, 1)\<close> (so at most \<open>1 - 1 / 2 ^ 53\<close>), the callback
  chooses the device at the index it computes, which is one of the set, and the alert it
  synthesizes, puts in front of the ledger and hands to the modal has that device's
  identifier, severity High, and a latitude and a longitude that each differ from the
  device's coordinate \<open>x\<close> by at most \<open>0.005 + (\<bar>x\<bar> + 1) / 2 ^ 53\<close>: the radius, up to the
  rounding of the three operations.
\<close>

theorem synthesized_alert_near_device_rounded:
  assumes ne: "devices \<noteq> []"
      and fire: "r_fire r > fl64 (9 / 10)"
      and dev: "0 \<le> r_device r" "r_device r \<le> 1 - 1 / 2 ^ 53"
      and nlat: "0 \<le> r_lat r" "r_lat r \<le> 1"
      and nlng: "0 \<le> r_lng r" "r_lng r \<le> 1"
  shows "\<exists>d a. d = devices ! nat \<lfloor>fl64 (r_device r * real (length devices))\<rfloor>
       \<and> d \<in> set devices
       \<and> randomDevice64 devices (r_device r) = Some d
       \<and> newAlert64 devices r now = Inr a
       \<and> intervalCallback64 devices r now s
            = Inr (s\<lparr>alerts := a # alerts s, highSeverityAlert := Some a\<rparr>)
       \<and> alert_deviceId a = device_id d
       \<and> alert_severity a = High
       \<and> \<bar>lat (alert_location a) - lat (device_location d)\<bar>
            \<le> 0.005 + (\<bar>lat (device_location d)\<bar> + 1) / 2 ^ 53
       \<and> \<bar>lng (alert_location a) - lng (device_location d)\<bar>
            \<le> 0.005 + (\<bar>lng (device_location d)\<bar> + 1) / 2 ^ 53"
proof -
  let ?d = "devices ! nat \<lfloor>fl64 (r_device r * real (length devices))\<rfloor>"
  let ?a = "\<lparr>alert_id = ''A'' @ numberToString \<lfloor>fl64 (r_id r * 1000)\<rfloor>,
             alert_timestamp = now,
             alert_location =
               \<lparr>lat = fl64 (lat (device_location ?d) + noise64 (r_lat r)),
                lng = fl64 (lng (device_location ?d) + noise64 (r_lng r))\<rparr>,
             alert_severity = High,
             alert_deviceId = device_id ?d\<rparr>"
  from randomDevice64_in_range [OF ne dev]
  have chosen: "randomDevice64 devices (r_device r) = Some ?d"
    and idx: "nat \<lfloor>fl64 (r_device r * real (length devices))\<rfloor> < length devices"
    by simp_all
  from idx have mem: "?d \<in> set devices"
    by simp
  from chosen have new: "newAlert64 devices r now = Inr ?a"
    by (simp add: newAlert64_def)
  from new fire have cb: "intervalCallback64 devices r now s
      = Inr (s\<lparr>alerts := ?a # alerts s, highSeverityAlert := Some ?a\<rparr>)"
    by (simp add: intervalCallback64_def)
  have blat: "\<bar>lat (alert_location ?a) - lat (device_location ?d)\<bar>
      \<le> 0.005 + (\<bar>lat (device_location ?d)\<bar> + 1) / 2 ^ 53"
    using perturbed_coordinate_bound [OF nlat, of "lat (device_location ?d)"] by simp
  have blng: "\<bar>lng (alert_location ?a) - lng (device_location ?d)\<bar>
      \<le> 0.005 + (\<bar>lng (device_location ?d)\<bar> + 1) / 2 ^ 53"
    using perturbed_coordinate_bound [OF nlng, of "lng (device_location ?d)"] by simp
  from mem chosen new cb blat blng show ?thesis
    by (intro exI [of _ ?d] exI [of _ ?a]) simp
qed

lemma fl64_nine_tenths_below: "fl64 (9 / 10) < 95 / 100"
proof -
  have "\<bar>9 / 10 :: real\<bar> / 2 ^ 53 + 1 / 2 ^ 1075 < 5 / 100"
    by simp
  with fl64_error [of "9 / 10"] show ?thesis
    by linarith
qed

text \<open>The device at coordinate 10 with the lowest latitude draw.\<close>

theorem synthesized_alert_near_device_rounded_witness:
  "newAlert64 [sampleDeviceTen] sampleDrawsLow ''2024-05-01T03:00:15.000Z'' = Inr sampleAlertLow
   \<and> alert_deviceId sampleAlertLow = device_id sampleDeviceTen
   \<and> alert_severity sampleAlertLow = High
   \<and> \<bar>lat (alert_location sampleAlertLow) - lat (device_location sampleDeviceTen)\<bar>
        \<le> 0.005 + (\<bar>lat (device_location sampleDeviceTen)\<bar> + 1) / 2 ^ 53
   \<and> \<bar>lng (alert_location sampleAlertLow) - lng (device_location sampleDeviceTen)\<bar>
        \<le> 0.005 + (\<bar>lng (device_location sampleDeviceTen)\<bar> + 1) / 2 ^ 53"
proof -
  let ?D = "[sampleDeviceTen]"
  have ne: "?D \<noteq> []"
    by simp
  have fire: "r_fire sampleDrawsLow > fl64 (9 / 10)"
    using fl64_nine_tenths_below by (simp add: sampleDrawsLow_def)
  have draws: "0 \<le> r_device sampleDrawsLow" "r_device sampleDrawsLow \<le> 1 - 1 / 2 ^ 53"
    "0 \<le> r_lat sampleDrawsLow" "r_lat sampleDrawsLow \<le> 1"
    "0 \<le> r_lng sampleDrawsLow" "r_lng sampleDrawsLow \<le> 1"
    by (simp_all add: sampleDrawsLow_def)
  have idx: "?D ! nat \<lfloor>fl64 (r_device sampleDrawsLow * real (length ?D))\<rfloor> = sampleDeviceTen"
    by (simp add: sampleDrawsLow_def fl64_zero)
  from synthesized_alert_near_device_rounded [OF ne fire draws, of "''2024-05-01T03:00:15.000Z''"
      "initialState (mockAlerts sampleAgo)"]
  obtain d a where d: "d = ?D ! nat \<lfloor>fl64 (r_device sampleDrawsLow * real (length ?D))\<rfloor>"
    and a: "newAlert64 ?D sampleDrawsLow ''2024-05-01T03:00:15.000Z'' = Inr a"
    and props: "alert_deviceId a = device_id d" "alert_severity a = High"
      "\<bar>lat (alert_location a) - lat (device_location d)\<bar>
         \<le> 0.005 + (\<bar>lat (device_location d)\<bar> + 1) / 2 ^ 53"
      "\<bar>lng (alert_location a) - lng (device_location d)\<bar>
         \<le> 0.005 + (\<bar>lng (device_location d)\<bar> + 1) / 2 ^ 53"
    by blast
  from a have "a = sampleAlertLow"
    by (simp only: newAlert64_sampleLow sum.inject)
  with d idx props newAlert64_sampleLow show ?thesis
    by (simp only:)
qed

text \<open>
  The rounded product decides the index: for the binary64 value of \<open>0.6\<close> and five devices
  it is exactly 3, where the exact product lies below 3.
\<close>

lemma fl64_six_tenths: "fl64 (6 / 10) = 5404319552844595 / 2 ^ 53"
proof -
  have r: "round_even (6 / 10 * 2 ^ 53) = 5404319552844595"
    by (simp add: round_even_def)
  have "fl64 (6 / 10) = of_int (round_even (6 / 10 * 2 ^ 53)) / 2 ^ 53"
    by (rule fl64_scaled) simp_all
  then show ?thesis
    by (simp only: r of_int_numeral)
qed

lemma double_six_tenths_picks_fourth_device:
  "randomDevice64 (mockDevices ago) (5404319552844595 / 2 ^ 53) = Some (mockDevices ago ! 3)
   \<and> randomDevice (mockDevices ago) (5404319552844595 / 2 ^ 53) = Some (mockDevices ago ! 2)"
proof -
  have len: "real (length (mockDevices ago)) = 5"
    by (simp add: mockDevices_def)
  let ?x = "5404319552844595 / 2 ^ 53 * 5 :: real"
  have r: "round_even (?x * 2 ^ 51) = 6755399441055744"
    by (simp add: round_even_def)
  have "fl64 ?x = of_int (round_even (?x * 2 ^ 51)) / 2 ^ 51"
    by (rule fl64_scaled) simp_all
  then have three: "fl64 ?x = 3"
    by (simp only: r) simp
  have rounded: "randomDevice64 (mockDevices ago) (5404319552844595 / 2 ^ 53) = Some (mockDevices ago ! 3)"
    unfolding randomDevice64_def len three by (simp add: mockDevices_def)
  have exact: "randomDevice (mockDevices ago) (5404319552844595 / 2 ^ 53) = Some (mockDevices ago ! 2)"
    unfolding randomDevice_def len by (simp add: mockDevices_def)
  from rounded exact show ?thesis ..
qed

section \<open>The overlay of the map\<close>

lemma forEach_addDeviceMarker:
  "array_forEach addDeviceMarker devices layerGroup =
     layerGroup @ map (\<lambda>d. hd (addDeviceMarker [] d)) devices"
  by (induction devices arbitrary: layerGroup) (simp_all add: addDeviceMarker_def)

lemma forEach_addAlertCircle:
  "array_forEach addAlertCircle alertList layerGroup =
     layerGroup @ concat (map (addAlertCircle []) alertList)"
  by (induction alertList arbitrary: layerGroup) (simp_all add: addAlertCircle_def Let_def)

lemma concat_addAlertCircle:
  "concat (map (addAlertCircle []) alertList) =
     map (\<lambda>a. hd (addAlertCircle [] a)) (filter (\<lambda>a. alert_severity a \<noteq> Resolved) alertList)"
  by (induction alertList) (simp_all add: addAlertCircle_def Let_def)

lemma natToString_89: "natToString 89 = ''89''"
  by (simp add: natToString.simps digitChar_def)

text \<open>
  Claim C8: for every device list and alert list, the layers after the data effect are one
  marker per device, in the devices' order, with the colour class green for Online,
  yellow for LowBattery and red for Offline, followed by one circle of radius 200 per
  alert whose severity is not Resolved, in the alerts' order, red when the severity is
  High and orange otherwise; a resolved alert adds nothing. Device D101 of the seed data
  with alert A001 gives one green marker and one red circle at (6.8, 80.8). The effect
  replaces whatever the layer group held before.
\<close>

theorem overlay_sync_layers:
  "syncLayers devices alertList =
     map (\<lambda>d. Marker \<lparr>lat = lat (device_location d), lng = lng (device_location d)\<rparr>
               (case device_status d of
                  Online \<Rightarrow> ''bg-green-500''
                | LowBattery \<Rightarrow> ''bg-yellow-500''
                | Offline \<Rightarrow> ''bg-red-500'')
               (''<b>Device:</b> '' @ device_id d @ ''<br><b>Battery:</b> '' @
                  natToString (device_battery d) @ ''%''))
         devices
     @ map (\<lambda>a. Circle \<lparr>lat = lat (alert_location a), lng = lng (alert_location a)\<rparr>
                 \<lparr>color = (case alert_severity a of High \<Rightarrow> ''red'' | _ \<Rightarrow> ''orange''),
                  fillColor = (case alert_severity a of High \<Rightarrow> ''red'' | _ \<Rightarrow> ''orange''),
                  fillOpacity = 0.3, radius = 200\<rparr>
                 (''<b>Alert:</b> '' @ alert_id a @ ''<br><b>Severity:</b> '' @
                    severityString (alert_severity a)))
         (filter (\<lambda>a. alert_severity a \<noteq> Resolved) alertList)
   \<and> length (filter (\<lambda>l. \<not> isCircle l) (syncLayers devices alertList)) = length devices
   \<and> length (filter isCircle (syncLayers devices alertList))
       = length (filter (\<lambda>a. alert_severity a \<noteq> Resolved) alertList)
   \<and> syncLayers [hd (mockDevices ago)] [hd (mockAlerts ago)] =
       [Marker \<lparr>lat = 6.8, lng = 80.8\<rparr> ''bg-green-500''
          ''<b>Device:</b> D101<br><b>Battery:</b> 89%'',
        Circle \<lparr>lat = 6.8, lng = 80.8\<rparr>
          \<lparr>color = ''red'', fillColor = ''red'', fillOpacity = 0.3, radius = 200\<rparr>
          ''<b>Alert:</b> A001<br><b>Severity:</b> High'']
   \<and> dataLayerRef (snd (dataEffect devices alertList (w, v\<lparr>dataLayerRef := Some old\<rparr>)))
       = Some (syncLayers devices alertList)"
proof -
  let ?marker = "\<lambda>d. Marker \<lparr>lat = lat (device_location d), lng = lng (device_location d)\<rparr>
               (case device_status d of
                  Online \<Rightarrow> ''bg-green-500''
                | LowBattery \<Rightarrow> ''bg-yellow-500''
                | Offline \<Rightarrow> ''bg-red-500'')
               (''<b>Device:</b> '' @ device_id d @ ''<br><b>Battery:</b> '' @
                  natToString (device_battery d) @ ''%'')"
  let ?circle = "\<lambda>a. Circle \<lparr>lat = lat (alert_location a), lng = lng (alert_location a)\<rparr>
                 \<lparr>color = (case alert_severity a of High \<Rightarrow> ''red'' | _ \<Rightarrow> ''orange''),
                  fillColor = (case alert_severity a of High \<Rightarrow> ''red'' | _ \<Rightarrow> ''orange''),
                  fillOpacity = 0.3, radius = 200\<rparr>
                 (''<b>Alert:</b> '' @ alert_id a @ ''<br><b>Severity:</b> '' @
                    severityString (alert_severity a))"
  let ?live = "filter (\<lambda>a. alert_severity a \<noteq> Resolved) alertList"
  have m: "hd (addDeviceMarker [] d) = ?marker d" for d
    by (cases "device_status d") (simp_all add: addDeviceMarker_def statusColorClass_def)
  have c: "alert_severity a \<noteq> Resolved \<Longrightarrow> hd (addAlertCircle [] a) = ?circle a" for a
    by (cases "alert_severity a") (simp_all add: addAlertCircle_def Let_def)
  have cs: "map (\<lambda>a. hd (addAlertCircle [] a)) ?live = map ?circle ?live"
    by (rule map_cong) (simp_all add: c)
  have whole: "syncLayers devices alertList = map ?marker devices @ map ?circle ?live"
    by (simp add: syncLayers_def forEach_addDeviceMarker forEach_addAlertCircle
        concat_addAlertCircle m cs)
  have markers: "length (filter (\<lambda>l. \<not> isCircle l) (syncLayers devices alertList)) = length devices"
    by (simp only: whole) (simp add: filter_map o_def)
  have circles: "length (filter isCircle (syncLayers devices alertList)) = length ?live"
    by (simp only: whole) (simp add: filter_map o_def)
  have scenario: "syncLayers [hd (mockDevices ago)] [hd (mockAlerts ago)] =
       [Marker \<lparr>lat = 6.8, lng = 80.8\<rparr> ''bg-green-500''
          ''<b>Device:</b> D101<br><b>Battery:</b> 89%'',
        Circle \<lparr>lat = 6.8, lng = 80.8\<rparr>
          \<lparr>color = ''red'', fillColor = ''red'', fillOpacity = 0.3, radius = 200\<rparr>
          ''<b>Alert:</b> A001<br><b>Severity:</b> High'']"
    by (simp add: syncLayers_def addDeviceMarker_def addAlertCircle_def statusColorClass_def
        mockDevices_def mockAlerts_def natToString_89 Let_def)
  have effect: "dataLayerRef (snd (dataEffect devices alertList (w, v\<lparr>dataLayerRef := Some old\<rparr>)))
       = Some (syncLayers devices alertList)"
    by (simp add: dataEffect_def)
  from whole markers circles scenario effect show ?thesis
    by (simp only:)
qed


section \<open>The life cycle of the map\<close>

lemma applyUpdate_frame:
  "fst (applyUpdate x u) = fst x
   \<and> mapContainerRef (snd (applyUpdate x u)) = mapContainerRef (snd x)
   \<and> (mapRef (snd (applyUpdate x u)) = None) = (mapRef (snd x) = None)"
  by (cases u; cases x)
     (simp_all add: viewEffect_def dataEffect_def split: option.splits)

lemma updates_frame:
  "fst (foldl applyUpdate x us) = fst x
   \<and> mapContainerRef (snd (foldl applyUpdate x us)) = mapContainerRef (snd x)
   \<and> (mapRef (snd (foldl applyUpdate x us)) = None) = (mapRef (snd x) = None)"
proof (induction us arbitrary: x)
  case Nil
  show ?case by simp
next
  case (Cons u us)
  from Cons [of "applyUpdate x u"] applyUpdate_frame [of x u] show ?case
    by simp
qed

lemma mount_present:
  "fst (mount True p w) = w\<lparr>mapsCreated := Suc (mapsCreated w)\<rparr>
   \<and> mapRef (snd (mount True p w)) \<noteq> None
   \<and> mapContainerRef (snd (mount True p w))"
  by (simp add: mount_def initEffect_def viewEffect_def dataEffect_def)

lemma mount_absent:
  "fst (mount False p w) = w \<and> mapRef (snd (mount False p w)) = None"
  by (simp add: mount_def initEffect_def viewEffect_def dataEffect_def)

lemma initCleanup_counts:
  "fst (initCleanup x) =
     (if mapRef (snd x) = None then fst x
      else (fst x)\<lparr>mapsRemoved := Suc (mapsRemoved (fst x))\<rparr>)"
  by (cases x) (simp add: initCleanup_def split: option.splits)

lemma mountCycle_counts:
  "mountCycle w c =
     (if cycle_container c
      then w\<lparr>mapsCreated := Suc (mapsCreated w), mapsRemoved := Suc (mapsRemoved w)\<rparr>
      else w)"
proof (cases "cycle_container c")
  case True
  let ?x = "foldl applyUpdate (mount True (cycle_props c) w) (cycle_updates c)"
  from updates_frame [of "mount True (cycle_props c) w" "cycle_updates c"] mount_present [of "cycle_props c" w]
  have "fst ?x = w\<lparr>mapsCreated := Suc (mapsCreated w)\<rparr>" and "mapRef (snd ?x) \<noteq> None"
    by simp_all
  with True show ?thesis
    by (simp add: mountCycle_def unmount_def initCleanup_counts)
next
  case False
  let ?x = "foldl applyUpdate (mount False (cycle_props c) w) (cycle_updates c)"
  from updates_frame [of "mount False (cycle_props c) w" "cycle_updates c"] mount_absent [of "cycle_props c" w]
  have "fst ?x = w" and "mapRef (snd ?x) = None"
    by simp_all
  with False show ?thesis
    by (simp add: mountCycle_def unmount_def initCleanup_counts)
qed

lemma mountCycles_counts:
  "mapsCreated (mountCycles w cs) = mapsCreated w + length (filter cycle_container cs)
   \<and> mapsRemoved (mountCycles w cs) = mapsRemoved w + length (filter cycle_container cs)"
  unfolding mountCycles_def
  by (induction cs arbitrary: w) (simp_all add: mountCycle_counts)

text \<open>
  Claim C9: over any sequence of mount cycles, each with any number of renders between
  mount and unmount, \<^verbatim>\<open>L.map\<close> and \<^verbatim>\<open>map.remove\<close> are each called once per cycle whose
  container ref holds the element, so \<open>N\<close> cycles with the container attached give
  exactly \<open>N\<close> creations and \<open>N\<close> disposals. While mounted, renders neither create nor
  remove a map, running the initialization effect again creates nothing, the unmount
  removes the map once, and a second clean-up does nothing.
\<close>

theorem map_created_and_removed_once_per_mount:
  "mapsCreated (mountCycles w cs) = mapsCreated w + length (filter cycle_container cs)
   \<and> mapsRemoved (mountCycles w cs) = mapsRemoved w + length (filter cycle_container cs)
   \<and> ((\<forall>c\<in>set cs. cycle_container c) \<longrightarrow>
         mapsCreated (mountCycles w cs) = mapsCreated w + length cs
         \<and> mapsRemoved (mountCycles w cs) = mapsRemoved w + length cs)
   \<and> mapsCreated (fst (foldl applyUpdate (mount True p w) us)) = Suc (mapsCreated w)
   \<and> mapsRemoved (fst (foldl applyUpdate (mount True p w) us)) = mapsRemoved w
   \<and> initEffect center zoom (foldl applyUpdate (mount True p w) us)
       = foldl applyUpdate (mount True p w) us
   \<and> initEffect center zoom (initEffect center' zoom' x) = initEffect center' zoom' x
   \<and> mapsRemoved (unmount (foldl applyUpdate (mount True p w) us)) = Suc (mapsRemoved w)
   \<and> initCleanup (initCleanup x) = initCleanup x"
proof -
  let ?x = "foldl applyUpdate (mount True p w) us"
  note counts = mountCycles_counts [of w cs]
  have all: "(\<forall>c\<in>set cs. cycle_container c) \<longrightarrow>
         mapsCreated (mountCycles w cs) = mapsCreated w + length cs
         \<and> mapsRemoved (mountCycles w cs) = mapsRemoved w + length cs"
  proof
    assume "\<forall>c\<in>set cs. cycle_container c"
    then have "filter cycle_container cs = cs"
      by (simp add: filter_id_conv)
    with counts show "mapsCreated (mountCycles w cs) = mapsCreated w + length cs
         \<and> mapsRemoved (mountCycles w cs) = mapsRemoved w + length cs"
      by simp
  qed
  from updates_frame [of "mount True p w" us] mount_present [of p w]
  have live: "fst ?x = w\<lparr>mapsCreated := Suc (mapsCreated w)\<rparr>" "mapRef (snd ?x) \<noteq> None"
    by simp_all
  from live have created: "mapsCreated (fst ?x) = Suc (mapsCreated w)"
    and removed: "mapsRemoved (fst ?x) = mapsRemoved w"
    by simp_all
  from live(2) have rerun: "initEffect center zoom ?x = ?x"
    by (cases ?x) (auto simp: initEffect_def)
  have twice: "initEffect center zoom (initEffect center' zoom' x) = initEffect center' zoom' x"
    by (cases x) (simp add: initEffect_def)
  from live have disposed: "mapsRemoved (unmount ?x) = Suc (mapsRemoved w)"
    by (simp add: unmount_def initCleanup_counts)
  have again: "initCleanup (initCleanup x) = initCleanup x"
    by (cases x) (simp add: initCleanup_def split: option.splits)
  from counts all created removed rerun twice disposed again show ?thesis
    by blast
qed

text \<open>Three cycles of the map page, each with two renders after the mount.\<close>

theorem map_created_and_removed_once_per_mount_witness:
  "mapsCreated (mountCycles \<lparr>mapsCreated = 0, mapsRemoved = 0\<rparr> [sampleCycle, sampleCycle, sampleCycle]) = 3
   \<and> mapsRemoved (mountCycles \<lparr>mapsCreated = 0, mapsRemoved = 0\<rparr> [sampleCycle, sampleCycle, sampleCycle]) = 3"
proof -
  have present: "\<forall>c\<in>set [sampleCycle, sampleCycle, sampleCycle]. cycle_container c"
    by (simp add: sampleCycle_def)
  from map_created_and_removed_once_per_mount [of "\<lparr>mapsCreated = 0, mapsRemoved = 0\<rparr>"
      "[sampleCycle, sampleCycle, sampleCycle]"] present
  have "mapsCreated (mountCycles \<lparr>mapsCreated = 0, mapsRemoved = 0\<rparr> [sampleCycle, sampleCycle, sampleCycle])
          = mapsCreated \<lparr>mapsCreated = 0, mapsRemoved = 0\<rparr> + length [sampleCycle, sampleCycle, sampleCycle]
      \<and> mapsRemoved (mountCycles \<lparr>mapsCreated = 0, mapsRemoved = 0\<rparr> [sampleCycle, sampleCycle, sampleCycle])
          = mapsRemoved \<lparr>mapsCreated = 0, mapsRemoved = 0\<rparr> + length [sampleCycle, sampleCycle, sampleCycle]"
    by blast
  then show ?thesis
    by simp
qed


section \<open>The dashboard's mini map\<close>

lemma syncLayers_no_alerts:
  "syncLayers devices [] = map (\<lambda>d. hd (addDeviceMarker [] d)) devices
   \<and> filter isCircle (syncLayers devices []) = []
   \<and> length (syncLayers devices []) = length devices"
proof -
  have markers: "syncLayers devices [] = map (\<lambda>d. hd (addDeviceMarker [] d)) devices"
    by (simp add: syncLayers_def forEach_addDeviceMarker)
  have "\<not> isCircle (hd (addDeviceMarker [] d))" for d
    by (simp add: addDeviceMarker_def)
  then have "filter isCircle (map (\<lambda>d. hd (addDeviceMarker [] d)) devices) = []"
    by (simp add: filter_empty_conv)
  with markers show ?thesis
    by simp
qed

lemma mount_layers:
  "dataLayerRef (snd (mount True p w)) = Some (syncLayers (p_devices p) (p_alerts p))"
  by (simp add: mount_def initEffect_def viewEffect_def dataEffect_def)

lemma dataEffect_layers:
  "dataLayerRef (snd x) \<noteq> None \<Longrightarrow>
   dataLayerRef (snd (dataEffect devices alertList x)) = Some (syncLayers devices alertList)"
  by (cases x) (auto simp: dataEffect_def)

text \<open>
  Claim C10: the dashboard hands its mini map the devices and an empty alert list, whatever
  the ledger holds; so after the mount, and after any later run of the data effect with
  another ledger, the layers are the device markers alone: as many layers as devices and
  no circle among them.
\<close>

theorem dashboard_map_has_no_alert_circles:
  "p_alerts (dashboardMiniMap ledger devices) = []
   \<and> p_devices (dashboardMiniMap ledger devices) = devices
   \<and> (activePage s = Dashboard \<longrightarrow>
         renderPageMap devices s = Some (dashboardMiniMap (alerts s) devices))
   \<and> dataLayerRef (snd (mount True (dashboardMiniMap ledger devices) w))
       = Some (syncLayers devices [])
   \<and> dataLayerRef (snd (dataEffect (p_devices (dashboardMiniMap ledger' devices))
                                   (p_alerts (dashboardMiniMap ledger' devices))
                                   (mount True (dashboardMiniMap ledger devices) w)))
       = Some (syncLayers devices [])
   \<and> filter isCircle (syncLayers devices []) = []
   \<and> length (syncLayers devices []) = length devices"
proof -
  have props: "p_alerts (dashboardMiniMap ledger devices) = []"
      "p_devices (dashboardMiniMap ledger devices) = devices"
      "p_alerts (dashboardMiniMap ledger' devices) = []"
      "p_devices (dashboardMiniMap ledger' devices) = devices"
    by (simp_all add: dashboardMiniMap_def)
  have page: "activePage s = Dashboard \<longrightarrow>
         renderPageMap devices s = Some (dashboardMiniMap (alerts s) devices)"
    by simp
  have mounted: "dataLayerRef (snd (mount True (dashboardMiniMap ledger devices) w))
       = Some (syncLayers devices [])"
    by (simp only: mount_layers props)
  then have "dataLayerRef (snd (mount True (dashboardMiniMap ledger devices) w)) \<noteq> None"
    by simp
  then have again: "dataLayerRef (snd (dataEffect (p_devices (dashboardMiniMap ledger' devices))
                                   (p_alerts (dashboardMiniMap ledger' devices))
                                   (mount True (dashboardMiniMap ledger devices) w)))
       = Some (syncLayers devices [])"
    by (simp only: props) (rule dataEffect_layers)
  from props(1,2) page mounted again syncLayers_no_alerts [of devices] show ?thesis
    by blast
qed

text \<open>The dashboard of the initial state, with the five seed alerts in the ledger.\<close>

theorem dashboard_map_has_no_alert_circles_witness:
  "renderPageMap (mockDevices sampleAgo) (initialState (mockAlerts sampleAgo))
     = Some (dashboardMiniMap (mockAlerts sampleAgo) (mockDevices sampleAgo))
   \<and> dataLayerRef (snd (mount True (dashboardMiniMap (mockAlerts sampleAgo) (mockDevices sampleAgo))
         \<lparr>mapsCreated = 0, mapsRemoved = 0\<rparr>))
       = Some (syncLayers (mockDevices sampleAgo) [])
   \<and> filter isCircle (syncLayers (mockDevices sampleAgo) []) = []
   \<and> length (syncLayers (mockDevices sampleAgo) []) = 5"
proof -
  have page: "activePage (initialState (mockAlerts sampleAgo)) = Dashboard"
    and ledger: "alerts (initialState (mockAlerts sampleAgo)) = mockAlerts sampleAgo"
    by (simp_all add: initialState_def)
  have five: "length (mockDevices sampleAgo) = 5"
    by (simp add: mockDevices_def)
  from dashboard_map_has_no_alert_circles [of "mockAlerts sampleAgo" "mockDevices sampleAgo"
      "initialState (mockAlerts sampleAgo)" "\<lparr>mapsCreated = 0, mapsRemoved = 0\<rparr>"
      "mockAlerts sampleAgo"] page
  show ?thesis
    unfolding ledger five by blast
qed

end
